theory Spec2Isabelle
  imports Complex_Main "HOL-Library.AList"
begin

section \<open>Values of the host language\<close>

text \<open>
  The library is dynamically typed at run time: the adapter and the matcher decide what to
  do by inspecting their operand (\<^verbatim>\<open>typeof\<close>, \<^verbatim>\<open>"ok" in work\<close>, truthiness). The
  embedding therefore works over one universe of run-time values.

  \<^item> \<open>Obj ps\<close> is a plain record (an object literal, or what \<^verbatim>\<open>JSON.parse\<close> builds): its own
    enumerable string-keyed properties in insertion order; its prototype is
    \<^verbatim>\<open>Object.prototype\<close>. (The host lists the keys that are array indices first; the list
    keeps them where they were written.)
  \<^item> \<open>Inst (Ok v)\<close> and \<open>Inst (Err e)\<close> are instances of the classes \<^verbatim>\<open>Ok\<close> and \<^verbatim>\<open>Err\<close> of
    \<^verbatim>\<open>src/index.ts\<close> (the method-bearing style).
  \<^item> \<open>Fn n\<close> is a function of the calling program, known by a number; what it does when
    called is given by the host environment below.
  \<^item> \<open>PromiseObj n\<close> is a native promise, \<open>Handle w\<close> the promise that an adapter builds
    from a promise-like operand \<open>w\<close>; what a promise settles to is not modelled.
  \<^item> \<open>ErrorObj name message\<close> is a host \<^verbatim>\<open>Error\<close> object.
  \<^item> \<open>Num x\<close> is a finite number other than \<^verbatim>\<open>-0\<close> (every finite double is a real number, and
    \<open>Num 0\<close> is \<^verbatim>\<open>+0\<close>); \<open>NegZero\<close> is \<^verbatim>\<open>-0\<close>; \<open>NaN\<close>, \<open>PosInfinity\<close> and \<open>NegInfinity\<close> are the
    numbers that are not finite; \<open>BigInt k\<close> is a big integer. The library does no
    arithmetic.
  \<^item> Values are finite trees. Arrays, symbol-keyed properties, accessor properties of plain
    records and cyclic object graphs are not part of the universe.
\<close>

datatype ('v, 'e) Result = Ok 'v | Err 'e

datatype jsval =
    Undefined
  | Null
  | Bool bool
  | Num real
  | NegZero
  | NaN
  | PosInfinity
  | NegInfinity
  | BigInt int
  | Str string
  | Obj "(string \<times> jsval) list"
  | Inst "(jsval, jsval) Result"
  | Fn nat
  | PromiseObj nat
  | ErrorObj string string
  | Handle jsval

type_synonym props = "(string \<times> jsval) list"

text \<open>The \<^verbatim>\<open>typeof\<close> operator.\<close>

fun typeof :: "jsval \<Rightarrow> string" where
  "typeof Undefined = ''undefined''"
| "typeof (Bool b) = ''boolean''"
| "typeof (Num n) = ''number''"
| "typeof NegZero = ''number''"
| "typeof NaN = ''number''"
| "typeof PosInfinity = ''number''"
| "typeof NegInfinity = ''number''"
| "typeof (BigInt k) = ''bigint''"
| "typeof (Str s) = ''string''"
| "typeof (Fn f) = ''function''"
| "typeof v = ''object''"

text \<open>Truthiness, as the conditional operator and \<^verbatim>\<open>if\<close> read a value.\<close>

fun truthy :: "jsval \<Rightarrow> bool" where
  "truthy Undefined = False"
| "truthy Null = False"
| "truthy (Bool b) = b"
| "truthy (Num n) = (n \<noteq> 0)"
| "truthy NegZero = False"
| "truthy NaN = False"
| "truthy (BigInt k) = (k \<noteq> 0)"
| "truthy (Str s) = (s \<noteq> [])"
| "truthy v = True"

text \<open>
  The members every plain record inherits from \<^verbatim>\<open>Object.prototype\<close> (ECMAScript, with the
  legacy members of its Annex B).
\<close>

definition Object_prototype :: "string list" where
  "Object_prototype =
     [''constructor'', ''__defineGetter__'', ''__defineSetter__'', ''hasOwnProperty'',
      ''__lookupGetter__'', ''__lookupSetter__'', ''isPrototypeOf'',
      ''propertyIsEnumerable'', ''toString'', ''valueOf'', ''__proto__'',
      ''toLocaleString'']"

text \<open>
  The names \<^verbatim>\<open>k in v\<close> finds on an object: own properties, then the prototype chain. The
  library applies \<^verbatim>\<open>in\<close> only behind the guard \<^verbatim>\<open>typeof v === "object" && v !== null\<close>, so
  the other values (on which \<^verbatim>\<open>in\<close> raises, or which are functions) are never asked.
\<close>

fun member_names :: "jsval \<Rightarrow> string list" where
  "member_names (Obj ps) = map fst ps @ Object_prototype"
| "member_names (Inst (Ok v)) =
     [''value'', ''ok'', ''raw'', ''map'', ''mapErr'', ''flatMap'', ''unwrap'', ''or'']
       @ Object_prototype"
| "member_names (Inst (Err e)) =
     [''error'', ''ok'', ''raw'', ''annotate'', ''map'', ''mapErr'', ''flatMap'', ''unwrap'',
      ''or''] @ Object_prototype"
| "member_names (PromiseObj p) = [''then'', ''catch'', ''finally''] @ Object_prototype"
| "member_names (Handle w) = [''then'', ''catch'', ''finally''] @ Object_prototype"
| "member_names (ErrorObj n m) = [''message'', ''stack'', ''name''] @ Object_prototype"
| "member_names v = []"

definition in_op :: "string \<Rightarrow> jsval \<Rightarrow> bool" where
  "in_op k v = (k \<in> set (member_names v))"

text \<open>
  Reading a data field \<^verbatim>\<open>v.k\<close>. The library reads the fields \<^verbatim>\<open>ok\<close>, \<^verbatim>\<open>value\<close>, \<^verbatim>\<open>error\<close> of
  a Result and \<^verbatim>\<open>ok\<close>, \<^verbatim>\<open>err\<close> of a record of arms; no built-in prototype defines one of
  these names, so a name that is not an own field reads as \<^verbatim>\<open>undefined\<close>.
\<close>

fun get_prop :: "string \<Rightarrow> jsval \<Rightarrow> jsval" where
  "get_prop k (Obj ps) = (case map_of ps k of Some v \<Rightarrow> v | None \<Rightarrow> Undefined)"
| "get_prop k (Inst (Ok v)) =
     (if k = ''ok'' then Bool True else if k = ''value'' then v else Undefined)"
| "get_prop k (Inst (Err e)) =
     (if k = ''ok'' then Bool False else if k = ''error'' then e else Undefined)"
| "get_prop k v = Undefined"

text \<open>Errors the host raises itself. The message texts are the engine's, and nothing below
  depends on them.\<close>

definition TypeError :: "string \<Rightarrow> jsval" where
  "TypeError msg = ErrorObj ''TypeError'' msg"

definition not_a_function :: jsval where
  "not_a_function = TypeError ''is not a function''"

definition not_iterable :: jsval where
  "not_iterable = TypeError ''is not iterable''"

definition cannot_read :: jsval where
  "cannot_read = TypeError ''Cannot read properties of undefined or null''"

text \<open>
  A property read whose receiver may be \<^verbatim>\<open>undefined\<close> or \<^verbatim>\<open>null\<close>: the host raises a
  \<^verbatim>\<open>TypeError\<close> there. \<open>Inl\<close> is a raised value throughout, \<open>Inr\<close> a returned one.
\<close>

definition read :: "string \<Rightarrow> jsval \<Rightarrow> jsval + jsval" where
  "read k v = (if v = Undefined \<or> v = Null then Inl cannot_read else Inr (get_prop k v))"

subsection \<open>Calling foreign code\<close>

text \<open>
  The library calls functions it is handed (the callbacks of \<^verbatim>\<open>map\<close> and \<^verbatim>\<open>flatMap\<close>, the
  operand of \<^verbatim>\<open>result\<close>, the arms of \<^verbatim>\<open>match\<close>). A call is an effect, so every operation
  that may call takes the trace of the calls made so far and returns the extended trace.
  The host environment \<open>h\<close> says what function \<open>n\<close> does when called with \<open>args\<close> after the
  calls of the trace: it returns a value (\<open>Inr\<close>) or raises one (\<open>Inl\<close>). Calling a value
  that is not a function raises a \<^verbatim>\<open>TypeError\<close> and calls nothing.
\<close>

type_synonym trace = "(nat \<times> jsval list) list"

type_synonym host = "nat \<Rightarrow> jsval list \<Rightarrow> trace \<Rightarrow> jsval + jsval"

type_synonym outcome = "(jsval + jsval) \<times> trace"

definition call :: "host \<Rightarrow> jsval \<Rightarrow> jsval list \<Rightarrow> trace \<Rightarrow> outcome" where
  "call h f args tr =
     (case f of
        Fn n \<Rightarrow> (h n args tr, tr @ [(n, args)])
      | _ \<Rightarrow> (Inl not_a_function, tr))"

subsection \<open>Object literals with a spread\<close>

text \<open>Decimal numerals: the property names of the characters of a string.\<close>

fun dec :: "nat \<Rightarrow> string" where
  "dec n = (if n < 10 then [char_of (48 + n)] else dec (n div 10) @ [char_of (48 + n mod 10)])"

declare dec.simps [simp del]

text \<open>
  The own enumerable properties that \<^verbatim>\<open>...src\<close> copies. An instance of \<^verbatim>\<open>Ok\<close> or \<^verbatim>\<open>Err\<close> has
  the parameter property first and the initialised field \<^verbatim>\<open>ok\<close> second (the order in which
  the compiled constructor assigns them); its methods and \<^verbatim>\<open>raw\<close> live on the prototype.
\<close>

fun own_enumerable :: "jsval \<Rightarrow> props" where
  "own_enumerable (Obj ps) = ps"
| "own_enumerable (Str s) = map (\<lambda>i. (dec i, Str [s ! i])) [0..<length s]"
| "own_enumerable (Inst (Ok v)) = [(''value'', v), (''ok'', Bool True)]"
| "own_enumerable (Inst (Err e)) = [(''error'', e), (''ok'', Bool False)]"
| "own_enumerable v = []"

text \<open>
  \<open>spread src target\<close> is the literal under construction \<open>target\<close> after \<^verbatim>\<open>...src\<close>: each
  property of \<open>src\<close> in turn is written, replacing the value of a key already present (at
  its place) and appending a new key. \<open>AList.update\<close> is exactly one such write.
\<close>

definition spread :: "jsval \<Rightarrow> props \<Rightarrow> props" where
  "spread src target = fold (\<lambda>(k, v). AList.update k v) (own_enumerable src) target"

section \<open>The method-bearing style: the classes Ok and Err\<close>

text \<open>
  Each method is a function of the field of its receiver (\<^verbatim>\<open>this.value\<close>, \<^verbatim>\<open>this.error\<close>);
  \<^verbatim>\<open>this\<close> itself is \<open>Inst (Ok v)\<close>, respectively \<open>Inst (Err e)\<close>. Results are immutable, so
  \<^verbatim>\<open>return this\<close> is the receiver's value with no call and no construction in between.
\<close>

definition Ok_raw :: "jsval \<Rightarrow> jsval" where
  "Ok_raw v = Obj [(''ok'', Bool True), (''value'', v)]"

definition Ok_map :: "host \<Rightarrow> jsval \<Rightarrow> jsval \<Rightarrow> trace \<Rightarrow> outcome" where
  "Ok_map h v fn tr =
     (case call h fn [v] tr of
        (Inr y, tr') \<Rightarrow> (Inr (Inst (Ok y)), tr')
      | (Inl x, tr') \<Rightarrow> (Inl x, tr'))"

definition Ok_mapErr :: "host \<Rightarrow> jsval \<Rightarrow> jsval \<Rightarrow> trace \<Rightarrow> outcome" where
  "Ok_mapErr h v fn tr = (Inr (Inst (Ok v)), tr)"

definition Ok_flatMap :: "host \<Rightarrow> jsval \<Rightarrow> jsval \<Rightarrow> trace \<Rightarrow> outcome" where
  "Ok_flatMap h v fn tr = call h fn [v] tr"

definition Ok_unwrap :: "jsval \<Rightarrow> jsval + jsval" where
  "Ok_unwrap v = Inr v"

definition Ok_or :: "jsval \<Rightarrow> jsval \<Rightarrow> jsval" where
  "Ok_or v fallback = v"

definition Ok_iterator :: "jsval \<Rightarrow> jsval list" where
  "Ok_iterator v = [v]"

definition Err_raw :: "jsval \<Rightarrow> jsval" where
  "Err_raw e = Obj [(''ok'', Bool False), (''error'', e)]"

text \<open>A parameter with the default \<^verbatim>\<open>= {}\<close>: the default stands in for \<^verbatim>\<open>undefined\<close> only.\<close>

definition default_payload :: "jsval \<Rightarrow> jsval" where
  "default_payload payload = (if payload = Undefined then Obj [] else payload)"

definition Err_annotate :: "jsval \<Rightarrow> string \<Rightarrow> jsval \<Rightarrow> jsval" where
  "Err_annotate e t payload =
     Inst (Err (Obj (AList.update ''cause'' e
       (spread (default_payload payload) [(''type'', Str t)]))))"

definition Err_map :: "host \<Rightarrow> jsval \<Rightarrow> jsval \<Rightarrow> trace \<Rightarrow> outcome" where
  "Err_map h e fn tr = (Inr (Inst (Err e)), tr)"

definition Err_mapErr :: "host \<Rightarrow> jsval \<Rightarrow> jsval \<Rightarrow> trace \<Rightarrow> outcome" where
  "Err_mapErr h e fn tr =
     (case call h fn [e] tr of
        (Inr y, tr') \<Rightarrow> (Inr (Inst (Err y)), tr')
      | (Inl x, tr') \<Rightarrow> (Inl x, tr'))"

definition Err_flatMap :: "host \<Rightarrow> jsval \<Rightarrow> jsval \<Rightarrow> trace \<Rightarrow> outcome" where
  "Err_flatMap h e fn tr = (Inr (Inst (Err e)), tr)"

definition Err_unwrap :: "jsval \<Rightarrow> jsval + jsval" where
  "Err_unwrap e = Inl e"

definition Err_or :: "jsval \<Rightarrow> jsval \<Rightarrow> jsval" where
  "Err_or e fallback = fallback"

definition Err_iterator :: "jsval \<Rightarrow> jsval list" where
  "Err_iterator e = []"

text \<open>A method call on a receiver of the union type \<^verbatim>\<open>Result\<close> runs the method of its class.\<close>

fun method_map :: "host \<Rightarrow> (jsval, jsval) Result \<Rightarrow> jsval \<Rightarrow> trace \<Rightarrow> outcome" where
  "method_map h (Ok v) fn tr = Ok_map h v fn tr"
| "method_map h (Err e) fn tr = Err_map h e fn tr"

fun method_mapErr :: "host \<Rightarrow> (jsval, jsval) Result \<Rightarrow> jsval \<Rightarrow> trace \<Rightarrow> outcome" where
  "method_mapErr h (Ok v) fn tr = Ok_mapErr h v fn tr"
| "method_mapErr h (Err e) fn tr = Err_mapErr h e fn tr"

fun method_flatMap :: "host \<Rightarrow> (jsval, jsval) Result \<Rightarrow> jsval \<Rightarrow> trace \<Rightarrow> outcome" where
  "method_flatMap h (Ok v) fn tr = Ok_flatMap h v fn tr"
| "method_flatMap h (Err e) fn tr = Err_flatMap h e fn tr"

fun method_unwrap :: "(jsval, jsval) Result \<Rightarrow> jsval + jsval" where
  "method_unwrap (Ok v) = Ok_unwrap v"
| "method_unwrap (Err e) = Err_unwrap e"

fun method_or :: "(jsval, jsval) Result \<Rightarrow> jsval \<Rightarrow> jsval" where
  "method_or (Ok v) fallback = Ok_or v fallback"
| "method_or (Err e) fallback = Err_or e fallback"

fun method_raw :: "(jsval, jsval) Result \<Rightarrow> jsval" where
  "method_raw (Ok v) = Ok_raw v"
| "method_raw (Err e) = Err_raw e"

subsection \<open>Constructors and the universal adapter\<close>

definition ok :: "jsval \<Rightarrow> jsval" where
  "ok v = Inst (Ok v)"

text \<open>\<^verbatim>\<open>err\<close> is curried: \<^verbatim>\<open>err(type)(payload = {})\<close>.\<close>

definition err :: "string \<Rightarrow> jsval \<Rightarrow> jsval" where
  "err t payload = Inst (Err (Obj (spread (default_payload payload) [(''type'', Str t)])))"

definition errAny :: "jsval \<Rightarrow> jsval" where
  "errAny e = Inst (Err e)"

definition isPromiseLike :: "jsval \<Rightarrow> bool" where
  "isPromiseLike v = (typeof v = ''object'' \<and> v \<noteq> Null \<and> in_op ''then'' v)"

text \<open>
  \<^verbatim>\<open>result\<close> of \<^verbatim>\<open>src/index.ts\<close>. Its promise branch returns at once the promise
  \<^verbatim>\<open>Promise.resolve(work).then(ok).catch(e => errAny(e))\<close>, here \<open>Handle work\<close>; nothing is
  called before the function returns.
\<close>

definition result :: "host \<Rightarrow> jsval \<Rightarrow> trace \<Rightarrow> outcome" where
  "result h work tr =
     (if typeof work = ''object'' \<and> work \<noteq> Null \<and> in_op ''ok'' work then
        (Inr (if truthy (get_prop ''ok'' work)
              then Inst (Ok (get_prop ''value'' work))
              else Inst (Err (get_prop ''error'' work))), tr)
      else if isPromiseLike work then (Inr (Handle work), tr)
      else
        (case call h work [] tr of
           (Inr v, tr') \<Rightarrow> (Inr (ok v), tr')
         | (Inl e, tr') \<Rightarrow> (Inr (errAny e), tr')))"

text \<open>
  Iterating a value (\<^verbatim>\<open>for...of\<close>, \<^verbatim>\<open>[...x]\<close>): the host asks the value for its iterator and
  collects what it yields. The classes define one; strings have the built-in one; a plain
  record, like every other value of the universe, has none, and the host raises.
\<close>

fun iterate :: "jsval \<Rightarrow> jsval + jsval list" where
  "iterate (Inst (Ok v)) = Inr (Ok_iterator v)"
| "iterate (Inst (Err e)) = Inr (Err_iterator e)"
| "iterate (Str s) = Inr (map (\<lambda>c. Str [c]) s)"
| "iterate v = Inl not_iterable"

section \<open>The free-function style: plain records\<close>

text \<open>
  The second source file expresses the same contract over bare records
  \<^verbatim>\<open>{ ok: true, value }\<close> and \<^verbatim>\<open>{ ok: false, error }\<close>. Its definitions carry the suffix
  \<open>_fn\<close> here, since both files use the same names.
\<close>

definition ok_fn :: "jsval \<Rightarrow> jsval" where
  "ok_fn v = Obj [(''ok'', Bool True), (''value'', v)]"

text \<open>\<^verbatim>\<open>err(typeOrPayload, payload?)\<close>; an omitted second argument is \<^verbatim>\<open>undefined\<close>.\<close>

definition err_fn :: "jsval \<Rightarrow> jsval \<Rightarrow> jsval" where
  "err_fn typeOrPayload payload =
     (if truthy payload
      then Obj [(''ok'', Bool False),
                (''error'', Obj (spread payload [(''type'', typeOrPayload)]))]
      else Obj [(''ok'', Bool False), (''error'', typeOrPayload)])"

text \<open>
  The free-function file calls \<^verbatim>\<open>errAny\<close> in \<^verbatim>\<open>mapErr\<close> and in \<^verbatim>\<open>result\<close>, and neither
  declares nor imports it (its documentation lists \<^verbatim>\<open>errAny(value)\<close> among the
  constructors). In the module as written the name is unbound: evaluating it raises the
  host's \<^verbatim>\<open>ReferenceError\<close>, and it is evaluated before the arguments of the call are.
\<close>

definition errAny_unbound :: jsval where
  "errAny_unbound = ErrorObj ''ReferenceError'' ''errAny is not defined''"

definition map_fn :: "host \<Rightarrow> jsval \<Rightarrow> jsval \<Rightarrow> trace \<Rightarrow> outcome" where
  "map_fn h r fn tr =
     (case read ''ok'' r of
        Inl x \<Rightarrow> (Inl x, tr)
      | Inr b \<Rightarrow>
          if truthy b then
            (case call h fn [get_prop ''value'' r] tr of
               (Inr y, tr') \<Rightarrow> (Inr (ok_fn y), tr')
             | (Inl x, tr') \<Rightarrow> (Inl x, tr'))
          else (Inr r, tr))"

text \<open>\<^verbatim>\<open>mapErr\<close> of a Failure is \<^verbatim>\<open>errAny(fn(r.error))\<close>: the unbound name raises, and \<open>fn\<close> is
  not called.\<close>

definition mapErr_fn :: "host \<Rightarrow> jsval \<Rightarrow> jsval \<Rightarrow> trace \<Rightarrow> outcome" where
  "mapErr_fn h r fn tr =
     (case read ''ok'' r of
        Inl x \<Rightarrow> (Inl x, tr)
      | Inr b \<Rightarrow>
          if truthy b then (Inr r, tr) else (Inl errAny_unbound, tr))"

definition flatMap_fn :: "host \<Rightarrow> jsval \<Rightarrow> jsval \<Rightarrow> trace \<Rightarrow> outcome" where
  "flatMap_fn h r fn tr =
     (case read ''ok'' r of
        Inl x \<Rightarrow> (Inl x, tr)
      | Inr b \<Rightarrow> if truthy b then call h fn [get_prop ''value'' r] tr else (Inr r, tr))"

definition unwrap_fn :: "jsval \<Rightarrow> jsval + jsval" where
  "unwrap_fn r =
     (case read ''ok'' r of
        Inl x \<Rightarrow> Inl x
      | Inr b \<Rightarrow> if truthy b then Inr (get_prop ''value'' r) else Inl (get_prop ''error'' r))"

definition orElse_fn :: "jsval \<Rightarrow> jsval \<Rightarrow> jsval + jsval" where
  "orElse_fn r fallback =
     (case read ''ok'' r of
        Inl x \<Rightarrow> Inl x
      | Inr b \<Rightarrow> if truthy b then Inr (get_prop ''value'' r) else Inr fallback)"

text \<open>\<^verbatim>\<open>annotate\<close> reads \<^verbatim>\<open>r.error\<close> and nothing else of \<open>r\<close>.\<close>

definition annotate_fn :: "jsval \<Rightarrow> string \<Rightarrow> jsval \<Rightarrow> jsval + jsval" where
  "annotate_fn r t payload =
     (case read ''error'' r of
        Inl x \<Rightarrow> Inl x
      | Inr e \<Rightarrow>
          Inr (Obj [(''ok'', Bool False),
                    (''error'', Obj (AList.update ''cause'' e
                       (spread (default_payload payload) [(''type'', Str t)])))]))"

text \<open>
  \<^verbatim>\<open>result\<close> of the free-function file: a promise-like operand, else a call. There is no
  branch for a record that is already a Result. The branch that catches what the call
  raised is \<^verbatim>\<open>return errAny(e)\<close>: the unbound name raises in its turn, and the adapter
  raises. (The callbacks of the promise branch run after the adapter has returned.)
\<close>

definition result_fn :: "host \<Rightarrow> jsval \<Rightarrow> trace \<Rightarrow> outcome" where
  "result_fn h work tr =
     (if isPromiseLike work then (Inr (Handle work), tr)
      else
        (case call h work [] tr of
           (Inr v, tr') \<Rightarrow> (Inr (ok_fn v), tr')
         | (Inl e, tr') \<Rightarrow> (Inl errAny_unbound, tr')))"

subsection \<open>The matcher\<close>

text \<open>
  \<^verbatim>\<open>b[k]()\<close> on a record \<open>b\<close> of cases finds \<open>k\<close> among the own properties of \<open>b\<close> and then
  on \<^verbatim>\<open>Object.prototype\<close>. \<open>Object_prototype_call h k b tr\<close> is what the inherited member
  \<open>k\<close> does when called with no argument and \<open>b\<close> as receiver:
  \<^item> \<^verbatim>\<open>toString\<close> returns the tag text of an ordinary object; \<^verbatim>\<open>toLocaleString\<close> calls
    \<^verbatim>\<open>this.toString()\<close>, which may be an own property of \<open>b\<close>;
  \<^item> \<^verbatim>\<open>valueOf\<close> returns the receiver, \<^verbatim>\<open>constructor\<close> (that is, \<^verbatim>\<open>Object\<close>) a new empty record;
  \<^item> \<^verbatim>\<open>hasOwnProperty\<close> and \<^verbatim>\<open>propertyIsEnumerable\<close> ask for the key of their missing
    argument, \<^verbatim>\<open>"undefined"\<close>; \<^verbatim>\<open>isPrototypeOf\<close> of a missing argument is false;
  \<^item> \<^verbatim>\<open>__lookupGetter__\<close> and \<^verbatim>\<open>__lookupSetter__\<close> find no accessor;
    \<^verbatim>\<open>__defineGetter__\<close> and \<^verbatim>\<open>__defineSetter__\<close> reject the missing function;
  \<^item> \<^verbatim>\<open>__proto__\<close> reads as the prototype object, which cannot be called.
\<close>

definition Object_prototype_call :: "host \<Rightarrow> string \<Rightarrow> props \<Rightarrow> trace \<Rightarrow> outcome" where
  "Object_prototype_call h k b tr =
     (if k = ''toString'' then (Inr (Str ''[object Object]''), tr)
      else if k = ''toLocaleString'' then
        (case map_of b ''toString'' of
           Some f \<Rightarrow> call h f [] tr
         | None \<Rightarrow> (Inr (Str ''[object Object]''), tr))
      else if k = ''valueOf'' then (Inr (Obj b), tr)
      else if k = ''constructor'' then (Inr (Obj []), tr)
      else if k = ''hasOwnProperty'' \<or> k = ''propertyIsEnumerable'' then
        (Inr (Bool (''undefined'' \<in> set (map fst b))), tr)
      else if k = ''isPrototypeOf'' then (Inr (Bool False), tr)
      else if k = ''__lookupGetter__'' \<or> k = ''__lookupSetter__'' then (Inr Undefined, tr)
      else if k = ''__defineGetter__'' \<or> k = ''__defineSetter__'' then
        (Inl (TypeError ''Object.prototype.__defineGetter__: Expecting function''), tr)
      else (Inl not_a_function, tr))"

definition call_member :: "host \<Rightarrow> props \<Rightarrow> string \<Rightarrow> trace \<Rightarrow> outcome" where
  "call_member h b k tr =
     (case map_of b k of
        Some f \<Rightarrow> call h f [] tr
      | None \<Rightarrow>
          if k \<in> set Object_prototype then Object_prototype_call h k b tr
          else (Inl not_a_function, tr))"

text \<open>
  \<^verbatim>\<open>match(a, b)\<close>. The second argument is the record of arms or of cases that both
  overloads require. A first argument that is neither a Result nor a string is outside
  both overloads (the host would coerce it to a property key); the model gives \<open>None\<close>
  there.
\<close>

definition match_fn :: "host \<Rightarrow> jsval \<Rightarrow> props \<Rightarrow> trace \<Rightarrow> outcome option" where
  "match_fn h a b tr =
     (if typeof a = ''object'' \<and> truthy a \<and> in_op ''ok'' a then
        Some (if truthy (get_prop ''ok'' a)
              then call h (get_prop ''ok'' (Obj b)) [get_prop ''value'' a] tr
              else call h (get_prop ''err'' (Obj b)) [get_prop ''error'' a] tr)
      else
        (case a of
           Str d \<Rightarrow> Some (call_member h b d tr)
         | _ \<Rightarrow> None))"

section \<open>The wire shape\<close>

text \<open>
  A Result is persisted as JSON text. \<open>json\<close> is the abstract syntax of the texts that the
  host writes for the values of the universe (no arrays; the numbers written are the
  finite ones other than \<^verbatim>\<open>-0\<close>); printing a document and reading it back are the host's
  and lose nothing.

  \<open>JSON_stringify\<close> is the host's \<^verbatim>\<open>JSON.stringify\<close> with one argument, in the three parts
  of its definition:
  \<^item> \<open>JSON_property\<close> takes the value of a property. When the value is a record with a
    callable \<^verbatim>\<open>toJSON\<close> member, the host calls the member with the property key and goes
    on with what the call returned; the call is foreign code, made through the host
    environment and recorded in the trace.
  \<^item> \<open>JSON_value\<close> writes a value by its kind. \<^verbatim>\<open>undefined\<close> and a function yield
    \<^verbatim>\<open>undefined\<close> (\<open>Inr None\<close>); \<^verbatim>\<open>NaN\<close> and the infinities are written as \<^verbatim>\<open>null\<close>, \<^verbatim>\<open>-0\<close> as
    \<^verbatim>\<open>0\<close>; a big integer raises a \<^verbatim>\<open>TypeError\<close>; an object is written with its own
    enumerable properties, of which a host \<^verbatim>\<open>Error\<close> and a promise have none.
  \<^item> \<open>JSON_members\<close> writes the properties in turn and leaves out each one whose value
    yields \<^verbatim>\<open>undefined\<close>.

  What a \<^verbatim>\<open>toJSON\<close> member returns can hold further such members without end, so the
  number of these calls is bounded by \<open>n\<close>: the result is \<open>None\<close> when the bound is reached,
  and \<open>Some\<close> of what was raised or written, with the trace, otherwise.
\<close>

datatype json = JNull | JBool bool | JNum real | JStr string | JObj "(string \<times> json) list"

definition toJSON_member :: "jsval \<Rightarrow> nat option" where
  "toJSON_member v =
     (case v of
        Obj ps \<Rightarrow> (case map_of ps ''toJSON'' of Some (Fn f) \<Rightarrow> Some f | _ \<Rightarrow> None)
      | _ \<Rightarrow> None)"

function JSON_property ::
    "host \<Rightarrow> nat \<Rightarrow> string \<Rightarrow> jsval \<Rightarrow> trace \<Rightarrow> ((jsval + json option) \<times> trace) option"
  and JSON_value ::
    "host \<Rightarrow> nat \<Rightarrow> jsval \<Rightarrow> trace \<Rightarrow> ((jsval + json option) \<times> trace) option"
  and JSON_members ::
    "host \<Rightarrow> nat \<Rightarrow> props \<Rightarrow> trace \<Rightarrow> ((jsval + (string \<times> json) list) \<times> trace) option"
where
  "JSON_property h n key v tr =
     (case toJSON_member v of
        None \<Rightarrow> JSON_value h n v tr
      | Some f \<Rightarrow>
          (case n of
             0 \<Rightarrow> None
           | Suc m \<Rightarrow>
               (case h f [Str key] tr of
                  Inl x \<Rightarrow> Some (Inl x, tr @ [(f, [Str key])])
                | Inr v' \<Rightarrow> JSON_value h m v' (tr @ [(f, [Str key])]))))"
| "JSON_value h n Undefined tr = Some (Inr None, tr)"
| "JSON_value h n Null tr = Some (Inr (Some JNull), tr)"
| "JSON_value h n (Bool b) tr = Some (Inr (Some (JBool b)), tr)"
| "JSON_value h n (Num x) tr = Some (Inr (Some (JNum x)), tr)"
| "JSON_value h n NegZero tr = Some (Inr (Some (JNum 0)), tr)"
| "JSON_value h n NaN tr = Some (Inr (Some JNull), tr)"
| "JSON_value h n PosInfinity tr = Some (Inr (Some JNull), tr)"
| "JSON_value h n NegInfinity tr = Some (Inr (Some JNull), tr)"
| "JSON_value h n (BigInt k) tr =
     Some (Inl (TypeError ''Do not know how to serialize a BigInt''), tr)"
| "JSON_value h n (Str s) tr = Some (Inr (Some (JStr s)), tr)"
| "JSON_value h n (Obj ps) tr =
     (case JSON_members h n ps tr of
        None \<Rightarrow> None
      | Some (Inl x, tr') \<Rightarrow> Some (Inl x, tr')
      | Some (Inr ms, tr') \<Rightarrow> Some (Inr (Some (JObj ms)), tr'))"
| "JSON_value h n (Inst (Ok v)) tr =
     (case JSON_members h n [(''value'', v), (''ok'', Bool True)] tr of
        None \<Rightarrow> None
      | Some (Inl x, tr') \<Rightarrow> Some (Inl x, tr')
      | Some (Inr ms, tr') \<Rightarrow> Some (Inr (Some (JObj ms)), tr'))"
| "JSON_value h n (Inst (Err e)) tr =
     (case JSON_members h n [(''error'', e), (''ok'', Bool False)] tr of
        None \<Rightarrow> None
      | Some (Inl x, tr') \<Rightarrow> Some (Inl x, tr')
      | Some (Inr ms, tr') \<Rightarrow> Some (Inr (Some (JObj ms)), tr'))"
| "JSON_value h n (Fn f) tr = Some (Inr None, tr)"
| "JSON_value h n (PromiseObj p) tr = Some (Inr (Some (JObj [])), tr)"
| "JSON_value h n (ErrorObj nm msg) tr = Some (Inr (Some (JObj [])), tr)"
| "JSON_value h n (Handle w) tr = Some (Inr (Some (JObj [])), tr)"
| "JSON_members h n [] tr = Some (Inr [], tr)"
| "JSON_members h n ((k, v) # ps) tr =
     (case JSON_property h n k v tr of
        None \<Rightarrow> None
      | Some (Inl x, tr') \<Rightarrow> Some (Inl x, tr')
      | Some (Inr jo, tr') \<Rightarrow>
          (case JSON_members h n ps tr' of
             None \<Rightarrow> None
           | Some (Inl x, tr'') \<Rightarrow> Some (Inl x, tr'')
           | Some (Inr ms, tr'') \<Rightarrow>
               Some (Inr (case jo of None \<Rightarrow> ms | Some j \<Rightarrow> (k, j) # ms), tr'')))"
  by pat_completeness auto
termination
  by lexicographic_order

text \<open>The value handed to \<^verbatim>\<open>JSON.stringify\<close> is written as the property with the empty key.\<close>

definition JSON_stringify ::
    "host \<Rightarrow> nat \<Rightarrow> jsval \<Rightarrow> trace \<Rightarrow> ((jsval + json option) \<times> trace) option" where
  "JSON_stringify h n v tr = JSON_property h n [] v tr"

text \<open>
  \<open>JSON_parse\<close> is the host's \<^verbatim>\<open>JSON.parse\<close> on a well-formed text: the members of an object
  are written into a fresh record one after the other, a repeated key replacing the
  earlier value.
\<close>

fun JSON_parse :: "json \<Rightarrow> jsval"
  and parse_members :: "(string \<times> json) list \<Rightarrow> props \<Rightarrow> props" where
  "JSON_parse JNull = Null"
| "JSON_parse (JBool b) = Bool b"
| "JSON_parse (JNum n) = Num n"
| "JSON_parse (JStr s) = Str s"
| "JSON_parse (JObj ms) = Obj (parse_members ms [])"
| "parse_members [] acc = acc"
| "parse_members ((k, j) # ms) acc = parse_members ms (AList.update k (JSON_parse j) acc)"

text \<open>
  The round trip of the README and of the test \<^verbatim>\<open>rehydrate\<close>:
  \<^verbatim>\<open>result(JSON.parse(JSON.stringify(r)))\<close>, with the adapter of \<^verbatim>\<open>src/index.ts\<close>. What
  \<^verbatim>\<open>JSON.stringify\<close> raises is raised; \<^verbatim>\<open>JSON.parse\<close> of \<^verbatim>\<open>undefined\<close> raises a \<^verbatim>\<open>SyntaxError\<close>.
\<close>

definition rehydrate_round_trip :: "host \<Rightarrow> nat \<Rightarrow> jsval \<Rightarrow> trace \<Rightarrow> outcome option" where
  "rehydrate_round_trip h n r tr =
     (case JSON_stringify h n r tr of
        None \<Rightarrow> None
      | Some (Inl x, tr') \<Rightarrow> Some (Inl x, tr')
      | Some (Inr None, tr') \<Rightarrow> Some (Inl (ErrorObj ''SyntaxError'' ''is not valid JSON''), tr')
      | Some (Inr (Some doc), tr') \<Rightarrow> Some (result h (JSON_parse doc) tr'))"


section \<open>Example programs\<close>

text \<open>
  Two host environments for the concrete instances below. In \<open>idle_host\<close> every function
  returns \<^verbatim>\<open>undefined\<close>. In \<open>example_host\<close> the functions are those of the repository's
  tests: 0 is \<^verbatim>\<open>() => 1\<close>, 1 is \<^verbatim>\<open>() => { throw new Error("boom") }\<close>, 2 is
  \<^verbatim>\<open>(n) => n * 2\<close> on finite numbers, 3 is \<^verbatim>\<open>(e) => e.type\<close>, 4 is \<^verbatim>\<open>() => "a"\<close>, 5 is
  \<^verbatim>\<open>() => "b"\<close> and 6 is \<^verbatim>\<open>() => 0\<close>.
\<close>

definition idle_host :: host where
  "idle_host n args tr = Inr Undefined"

definition example_host :: host where
  "example_host n args tr =
     (if n = 0 then Inr (Num 1)
      else if n = 1 then Inl (ErrorObj ''Error'' ''boom'')
      else if n = 2 then (case args of [Num k] \<Rightarrow> Inr (Num (k * 2)) | _ \<Rightarrow> Inr NaN)
      else if n = 3 then
        (case args of
           [] \<Rightarrow> Inl cannot_read
         | e # _ \<Rightarrow> (case read ''type'' e of Inl x \<Rightarrow> Inl x | Inr t \<Rightarrow> Inr t))
      else if n = 4 then Inr (Str ''a'')
      else if n = 5 then Inr (Str ''b'')
      else if n = 6 then Inr (Num 0)
      else Inr Undefined)"

section \<open>Facts about records and the wire shape\<close>

lemma in_ok_plain: "in_op ''ok'' (Obj ps) = (''ok'' \<in> fst ` set ps)"
  by (auto simp: in_op_def Object_prototype_def)

lemma in_then_plain: "in_op ''then'' (Obj ps) = (''then'' \<in> fst ` set ps)"
  by (auto simp: in_op_def Object_prototype_def)

text \<open>Writing the properties of a record into a literal: the later write wins.\<close>

lemma fold_update_map_of:
  "distinct (map fst p) \<Longrightarrow>
   map_of (fold (\<lambda>(k, v). AList.update k v) p base) = map_of base ++ map_of p"
proof (induction p arbitrary: base)
  case Nil
  then show ?case by simp
next
  case (Cons kv p)
  obtain k v where kv: "kv = (k, v)" by (cases kv)
  from Cons.prems kv have notin: "k \<notin> dom (map_of p)" and dist: "distinct (map fst p)"
    by (auto simp: dom_map_of_conv_image_fst)
  have "map_of (fold (\<lambda>(k, v). AList.update k v) (kv # p) base)
          = map_of (AList.update k v base) ++ map_of p"
    using Cons.IH [OF dist] kv by simp
  also have "\<dots> = (map_of base)(k \<mapsto> v) ++ map_of p"
    by (simp add: update_conv')
  also have "\<dots> = (map_of base ++ map_of p)(k \<mapsto> v)"
    using notin by (rule map_add_upd_left)
  also have "\<dots> = map_of base ++ map_of (kv # p)"
    using kv by simp
  finally show ?case .
qed

lemma fold_update_distinct:
  "distinct (map fst base) \<Longrightarrow> distinct (map fst (fold (\<lambda>(k, v). AList.update k v) p base))"
  by (induction p arbitrary: base) (auto simp: distinct_update)

text \<open>Writing fresh keys appends them in order.\<close>

lemma fold_update_fresh:
  "distinct (map fst p) \<Longrightarrow> fst ` set p \<inter> fst ` set acc = {} \<Longrightarrow>
   fold (\<lambda>(k, v). AList.update k v) p acc = acc @ p"
proof (induction p arbitrary: acc)
  case Nil
  then show ?case by simp
next
  case (Cons kv p)
  obtain k v where kv: "kv = (k, v)" by (cases kv)
  from Cons.prems kv have fresh: "k \<notin> fst ` set acc" by auto
  have upd: "AList.update k v acc = acc @ [(k, v)]"
    using fresh by (induction acc) auto
  have "fst ` set p \<inter> fst ` set (acc @ [(k, v)]) = {}"
    using Cons.prems kv by auto
  with Cons.IH [of "acc @ [(k, v)]"] Cons.prems kv upd show ?case by simp
qed

text \<open>A write of a key that is not there appends it.\<close>

lemma update_fresh: "k \<notin> fst ` set al \<Longrightarrow> AList.update k v al = al @ [(k, v)]"
  by (induction al) auto

lemma map_of_update_same: "map_of (AList.update k v al) k = Some v"
  by (simp add: update_conv')

lemma spread_record_map_of:
  "distinct (map fst p) \<Longrightarrow> map_of (spread (Obj p) base) = map_of base ++ map_of p"
  by (simp add: spread_def fold_update_map_of)

lemma spread_record_fresh:
  "distinct (map fst p) \<Longrightarrow> fst ` set p \<inter> fst ` set base = {} \<Longrightarrow>
   spread (Obj p) base = base @ p"
  by (simp add: spread_def fold_update_fresh)

lemma spread_distinct:
  "distinct (map fst base) \<Longrightarrow> distinct (map fst (spread src base))"
  by (simp add: spread_def fold_update_distinct)





section \<open>The universal adapter\<close>

text \<open>
  The adapter of the method-bearing style rehydrates. A plain record with an \<^verbatim>\<open>ok\<close> field
  is taken as already Result-shaped before anything else is tried: whatever else the
  record holds (a \<^verbatim>\<open>then\<close> member included) and whatever the host functions would do, the
  adapter returns at once, with the trace of calls unchanged, an instance with the same
  discriminant and the same \<^verbatim>\<open>value\<close>, respectively \<^verbatim>\<open>error\<close>, field: \<open>Ok\<close> for the shape
  \<^verbatim>\<open>{ok: true, value}\<close> and \<open>Err\<close> for the shape \<^verbatim>\<open>{ok: false, error}\<close>. The returned value
  is the Result itself, not a pending handle.
\<close>

theorem result_rehydrates_record:
  "(map_of ps ''ok'' = Some (Bool b) \<longrightarrow>
      result h (Obj ps) tr =
        (Inr (Inst (if b then Ok (get_prop ''value'' (Obj ps))
                    else Err (get_prop ''error'' (Obj ps)))), tr))
   \<and> result h (Obj [(''ok'', Bool True), (''value'', v)]) tr = (Inr (Inst (Ok v)), tr)
   \<and> result h (Obj [(''ok'', Bool False), (''error'', e)]) tr = (Inr (Inst (Err e)), tr)"
  by (auto simp: result_def in_ok_plain dest: map_of_SomeD intro: rev_image_eqI)

text \<open>An instance: a Success record that is promise-like as well, and holds a function.\<close>

theorem result_rehydrates_record_witness:
  "map_of [(''ok'', Bool True), (''value'', Num 9), (''then'', Fn 0)] ''ok'' = Some (Bool True)
   \<and> isPromiseLike (Obj [(''ok'', Bool True), (''value'', Num 9), (''then'', Fn 0)])
   \<and> result example_host (Obj [(''ok'', Bool True), (''value'', Num 9), (''then'', Fn 0)]) []
       = (Inr (Inst (Ok (Num 9))), [])"
  using result_rehydrates_record
    [of "[(''ok'', Bool True), (''value'', Num 9), (''then'', Fn 0)]" True example_host "[]"]
  by (simp add: isPromiseLike_def in_then_plain)

text \<open>
  Claim C1. The claim says that the adapter of either style rehydrates. The free-function
  file says so too: the banner over its adapter names it a rehydrator, and its
  documentation shows \<^verbatim>\<open>result(JSON.parse(raw))\<close> as re-hydration. Its adapter all the same
  has no branch for a record that is already a Result. Handed the Success record
  \<^verbatim>\<open>{ok: true, value: 9}\<close>, it finds the record is not promise-like, tries to call it,
  catches the host's \<^verbatim>\<open>TypeError\<close> and, evaluating the unbound \<^verbatim>\<open>errAny\<close> in the catch
  branch, raises a \<^verbatim>\<open>ReferenceError\<close>; nothing is returned. The adapter of the
  method-bearing style returns Success of 9 for the same record.
\<close>

theorem result_fn_does_not_rehydrate:
  "result_fn idle_host (Obj [(''ok'', Bool True), (''value'', Num 9)]) []
     = (Inl errAny_unbound, [])
   \<and> result idle_host (Obj [(''ok'', Bool True), (''value'', Num 9)]) []
       = (Inr (Inst (Ok (Num 9))), [])"
  by (simp add: result_fn_def result_def isPromiseLike_def in_then_plain in_ok_plain call_def)




text \<open>
  What the two adapters do with a function \<open>w\<close>. Either makes exactly one call, of \<open>w\<close> with
  no argument: the trace grows by that one entry. If the call returns \<open>v\<close>, the adapter
  returns Success of \<open>v\<close>. If the call raises \<open>x\<close>, the adapter of the method-bearing style
  returns (it does not raise) Failure of \<open>x\<close> itself, and the adapter of the free-function
  file raises the \<^verbatim>\<open>ReferenceError\<close> of the unbound \<^verbatim>\<open>errAny\<close>.
\<close>

lemma result_calls_once:
  "(h w [] tr = Inr v \<longrightarrow>
      result h (Fn w) tr = (Inr (Inst (Ok v)), tr @ [(w, [])])
      \<and> result_fn h (Fn w) tr
          = (Inr (Obj [(''ok'', Bool True), (''value'', v)]), tr @ [(w, [])]))
   \<and> (h w [] tr = Inl x \<longrightarrow>
      result h (Fn w) tr = (Inr (Inst (Err x)), tr @ [(w, [])])
      \<and> result_fn h (Fn w) tr = (Inl errAny_unbound, tr @ [(w, [])]))"
  by (simp add: result_def result_fn_def isPromiseLike_def call_def ok_def errAny_def
      ok_fn_def)

text \<open>
  Claim C5. The claim holds of the adapter of the method-bearing style, and of the
  free-function adapter when the function returns. It is broken by the free-function file
  when the function raises: for \<^verbatim>\<open>result(() => { throw new Error("boom") })\<close>, the case of
  that file's own test, the function is called once and the adapter then raises the
  \<^verbatim>\<open>ReferenceError\<close> instead of returning Failure of the \<^verbatim>\<open>Error\<close>, which the adapter of the
  method-bearing style returns. \<^verbatim>\<open>result(() => 1)\<close> is Success of 1 in both.
\<close>

theorem result_fn_raises_when_callable_raises:
  "example_host 1 [] [] = Inl (ErrorObj ''Error'' ''boom'')
   \<and> result_fn example_host (Fn 1) [] = (Inl errAny_unbound, [(1, [])])
   \<and> result example_host (Fn 1) [] = (Inr (Inst (Err (ErrorObj ''Error'' ''boom''))), [(1, [])])
   \<and> example_host 0 [] [] = Inr (Num 1)
   \<and> result_fn example_host (Fn 0) []
       = (Inr (Obj [(''ok'', Bool True), (''value'', Num 1)]), [(0, [])])
   \<and> result example_host (Fn 0) [] = (Inr (Inst (Ok (Num 1))), [(0, [])])"
  by (simp add: example_host_def result_def result_fn_def isPromiseLike_def call_def ok_def
      errAny_def ok_fn_def)

section \<open>The combinators\<close>

text \<open>
  Claim C4. \<^verbatim>\<open>unwrap\<close> of a Success returns its value. \<^verbatim>\<open>unwrap\<close> of a Failure raises the
  value of the \<^verbatim>\<open>error\<close> field itself, with nothing wrapped around it. Both hold for the
  methods of the classes and for the free function over records.
\<close>

theorem unwrap_value_or_raise:
  "method_unwrap (Ok v) = Inr v
   \<and> method_unwrap (Err e) = Inl e
   \<and> unwrap_fn (ok_fn v) = Inr v
   \<and> unwrap_fn (Obj [(''ok'', Bool False), (''error'', e)]) = Inl e"
  by (simp add: Ok_unwrap_def Err_unwrap_def unwrap_fn_def ok_fn_def read_def)

text \<open>
  Claim C6. \<^verbatim>\<open>map\<close> of a Success calls the function once on the value and, when the call
  returns \<open>y\<close>, returns Success of \<open>y\<close>. \<^verbatim>\<open>map\<close> of a Failure returns its receiver, respectively
  its argument, as it is (\<^verbatim>\<open>return this\<close>, \<^verbatim>\<open>: r\<close>: nothing is built), and the trace is
  unchanged whatever was passed as the function: it is not called. Both styles.
\<close>

theorem map_success_and_failure:
  "(h f [v] tr = Inr y \<longrightarrow>
      method_map h (Ok v) (Fn f) tr = (Inr (Inst (Ok y)), tr @ [(f, [v])])
      \<and> map_fn h (ok_fn v) (Fn f) tr = (Inr (ok_fn y), tr @ [(f, [v])]))
   \<and> method_map h (Err e) fn tr = (Inr (Inst (Err e)), tr)
   \<and> map_fn h (Obj [(''ok'', Bool False), (''error'', e)]) fn tr
       = (Inr (Obj [(''ok'', Bool False), (''error'', e)]), tr)"
  by (simp add: Ok_map_def Err_map_def map_fn_def call_def ok_fn_def read_def)

text \<open>An instance: \<^verbatim>\<open>ok(2).map(double)\<close> and \<^verbatim>\<open>map(ok(2), double)\<close> of the tests.\<close>

theorem map_success_and_failure_witness:
  "example_host 2 [Num 2] [] = Inr (Num 4)
   \<and> method_map example_host (Ok (Num 2)) (Fn 2) [] = (Inr (Inst (Ok (Num 4))), [(2, [Num 2])])
   \<and> map_fn example_host (ok_fn (Num 2)) (Fn 2) [] = (Inr (ok_fn (Num 4)), [(2, [Num 2])])"
  using map_success_and_failure [of example_host 2 "Num 2" "[]" "Num 4"]
  by (simp add: example_host_def)

text \<open>
  Claim C7. \<^verbatim>\<open>flatMap\<close> of a Success calls the function once on the value and its outcome
  is the outcome of that call, as it is: the Result the function returns is returned with
  nothing wrapped around it. \<^verbatim>\<open>flatMap\<close> of a Failure returns the Failure as it is and the
  trace is unchanged: the function is not called. Both styles.
\<close>

theorem flatMap_direct_and_short_circuit:
  "method_flatMap h (Ok v) (Fn f) tr = (h f [v] tr, tr @ [(f, [v])])
   \<and> flatMap_fn h (ok_fn v) (Fn f) tr = (h f [v] tr, tr @ [(f, [v])])
   \<and> method_flatMap h (Err e) fn tr = (Inr (Inst (Err e)), tr)
   \<and> flatMap_fn h (Obj [(''ok'', Bool False), (''error'', e)]) fn tr
       = (Inr (Obj [(''ok'', Bool False), (''error'', e)]), tr)"
  by (simp add: Ok_flatMap_def Err_flatMap_def flatMap_fn_def call_def ok_fn_def read_def)

text \<open>
  Claim C9, as amended. Iterating an instance of \<^verbatim>\<open>Ok\<close> yields exactly its value, once;
  iterating an instance of \<^verbatim>\<open>Err\<close> yields nothing. This sequence view belongs to the
  method-bearing style alone: the free-function file defines none, and iterating one of
  its records raises the host's \<^verbatim>\<open>TypeError\<close>.
\<close>

theorem iterate_instances:
  "iterate (Inst (Ok v)) = Inr [v]
   \<and> iterate (Inst (Err e)) = Inr []
   \<and> iterate (ok_fn v) = Inl not_iterable
   \<and> iterate (Obj [(''ok'', Bool False), (''error'', e)]) = Inl not_iterable"
  by (simp add: Ok_iterator_def Err_iterator_def ok_fn_def)

text \<open>
  The claim as stated, for the free-function style, fails: iterating the Success record
  of 3 does not yield the one-element sequence of 3.
\<close>

theorem iterate_record_raises:
  "iterate (ok_fn (Num 3)) = Inl not_iterable \<and> iterate (ok_fn (Num 3)) \<noteq> Inr [Num 3]"
  by (simp add: ok_fn_def)

section \<open>Annotation and the error constructors\<close>

text \<open>
  Claim C3. For a Failure with error \<open>e\<close>, a string \<open>t\<close> and a payload record \<open>p\<close> (a record
  has each key once), \<^verbatim>\<open>annotate\<close> returns a new Failure whose error is a record \<open>ps\<close> that
  maps exactly as the literal \<^verbatim>\<open>{ type, ...p, cause: e }\<close> does: \<^verbatim>\<open>type\<close> to \<open>t\<close>, then the
  properties of \<open>p\<close> written over it, then \<^verbatim>\<open>cause\<close> to \<open>e\<close> itself. When \<open>p\<close> has neither a
  \<^verbatim>\<open>type\<close> nor a \<^verbatim>\<open>cause\<close> of its own, the record is \<^verbatim>\<open>type\<close>, the properties of \<open>p\<close> in
  their order, \<^verbatim>\<open>cause\<close>. Whatever the payload, \<^verbatim>\<open>.error.cause\<close> of the new Failure reads
  as \<open>e\<close>. The method of \<^verbatim>\<open>Err\<close> and the free function build the same record. With the
  payload left out the record is \<^verbatim>\<open>{ type, cause: e }\<close>. The last two conjuncts are the
  example of the specification.
\<close>

theorem annotate_wraps_cause:
  "(distinct (map fst p) \<longrightarrow>
      (\<exists>ps. Err_annotate e t (Obj p) = Inst (Err (Obj ps))
           \<and> annotate_fn (Obj [(''ok'', Bool False), (''error'', e)]) t (Obj p)
               = Inr (Obj [(''ok'', Bool False), (''error'', Obj ps)])
           \<and> distinct (map fst ps)
           \<and> map_of ps = ([''type'' \<mapsto> Str t] ++ map_of p)(''cause'' \<mapsto> e)))
   \<and> (distinct (map fst p) \<and> ''type'' \<notin> fst ` set p \<and> ''cause'' \<notin> fst ` set p \<longrightarrow>
        Err_annotate e t (Obj p) = Inst (Err (Obj ((''type'', Str t) # p @ [(''cause'', e)])))
        \<and> annotate_fn (Obj [(''ok'', Bool False), (''error'', e)]) t (Obj p)
            = Inr (Obj [(''ok'', Bool False),
                        (''error'', Obj ((''type'', Str t) # p @ [(''cause'', e)]))]))
   \<and> get_prop ''cause'' (get_prop ''error'' (Err_annotate e t payload)) = e
   \<and> (\<exists>r. annotate_fn (Obj [(''ok'', Bool False), (''error'', e)]) t payload = Inr r
          \<and> get_prop ''ok'' r = Bool False
          \<and> get_prop ''cause'' (get_prop ''error'' r) = e)
   \<and> Err_annotate e t Undefined = Inst (Err (Obj [(''type'', Str t), (''cause'', e)]))
   \<and> Err_annotate (Obj [(''type'', Str ''A''), (''id'', Num 2)]) ''B'' (Obj [(''extra'', Num 1)])
       = Inst (Err (Obj [(''type'', Str ''B''), (''extra'', Num 1),
                         (''cause'', Obj [(''type'', Str ''A''), (''id'', Num 2)])]))
   \<and> annotate_fn (err_fn (Str ''A'') (Obj [(''id'', Num 2)])) ''B'' (Obj [(''extra'', Num 1)])
       = Inr (Obj [(''ok'', Bool False),
                   (''error'', Obj [(''type'', Str ''B''), (''extra'', Num 1),
                                    (''cause'', Obj [(''type'', Str ''A''), (''id'', Num 2)])])])"
proof (intro conjI impI)
  assume d: "distinct (map fst p)"
  let ?ps = "AList.update ''cause'' e (spread (Obj p) [(''type'', Str t)])"
  have "distinct (map fst ?ps)"
    by (simp add: distinct_update spread_distinct)
  moreover have "map_of ?ps = ([''type'' \<mapsto> Str t] ++ map_of p)(''cause'' \<mapsto> e)"
    using d by (simp add: update_conv' spread_record_map_of)
  moreover have "Err_annotate e t (Obj p) = Inst (Err (Obj ?ps))"
    by (simp add: Err_annotate_def default_payload_def)
  moreover have "annotate_fn (Obj [(''ok'', Bool False), (''error'', e)]) t (Obj p)
               = Inr (Obj [(''ok'', Bool False), (''error'', Obj ?ps)])"
    by (simp add: annotate_fn_def read_def default_payload_def)
  ultimately show "\<exists>ps. Err_annotate e t (Obj p) = Inst (Err (Obj ps))
           \<and> annotate_fn (Obj [(''ok'', Bool False), (''error'', e)]) t (Obj p)
               = Inr (Obj [(''ok'', Bool False), (''error'', Obj ps)])
           \<and> distinct (map fst ps)
           \<and> map_of ps = ([''type'' \<mapsto> Str t] ++ map_of p)(''cause'' \<mapsto> e)"
    by blast
next
  assume a: "distinct (map fst p) \<and> ''type'' \<notin> fst ` set p \<and> ''cause'' \<notin> fst ` set p"
  then have s: "spread (Obj p) [(''type'', Str t)] = (''type'', Str t) # p"
    using spread_record_fresh [of p "[(''type'', Str t)]"] by simp
  have u: "AList.update ''cause'' e ((''type'', Str t) # p) = (''type'', Str t) # p @ [(''cause'', e)]"
    using a update_fresh [of "''cause''" "(''type'', Str t) # p" e] by simp
  show "Err_annotate e t (Obj p) = Inst (Err (Obj ((''type'', Str t) # p @ [(''cause'', e)])))"
    using s u by (simp add: Err_annotate_def default_payload_def)
  show "annotate_fn (Obj [(''ok'', Bool False), (''error'', e)]) t (Obj p)
            = Inr (Obj [(''ok'', Bool False),
                        (''error'', Obj ((''type'', Str t) # p @ [(''cause'', e)]))])"
    using s u by (simp add: annotate_fn_def read_def default_payload_def)
next
  show "get_prop ''cause'' (get_prop ''error'' (Err_annotate e t payload)) = e"
    by (simp add: Err_annotate_def map_of_update_same)
next
  show "\<exists>r. annotate_fn (Obj [(''ok'', Bool False), (''error'', e)]) t payload = Inr r
          \<and> get_prop ''ok'' r = Bool False
          \<and> get_prop ''cause'' (get_prop ''error'' r) = e"
    by (simp add: annotate_fn_def read_def map_of_update_same)
next
  show "Err_annotate e t Undefined = Inst (Err (Obj [(''type'', Str t), (''cause'', e)]))"
    by (simp add: Err_annotate_def default_payload_def spread_def)
next
  show "Err_annotate (Obj [(''type'', Str ''A''), (''id'', Num 2)]) ''B'' (Obj [(''extra'', Num 1)])
       = Inst (Err (Obj [(''type'', Str ''B''), (''extra'', Num 1),
                         (''cause'', Obj [(''type'', Str ''A''), (''id'', Num 2)])]))"
    by (simp add: Err_annotate_def default_payload_def spread_def)
next
  show "annotate_fn (err_fn (Str ''A'') (Obj [(''id'', Num 2)])) ''B'' (Obj [(''extra'', Num 1)])
       = Inr (Obj [(''ok'', Bool False),
                   (''error'', Obj [(''type'', Str ''B''), (''extra'', Num 1),
                                    (''cause'', Obj [(''type'', Str ''A''), (''id'', Num 2)])])])"
    by (simp add: annotate_fn_def err_fn_def read_def default_payload_def spread_def)
qed

text \<open>Two instances: the first link of the README's chain, and a payload with a \<^verbatim>\<open>type\<close>
  and a \<^verbatim>\<open>cause\<close> of its own: its \<^verbatim>\<open>type\<close> stays, its \<^verbatim>\<open>cause\<close> is replaced.\<close>

theorem annotate_wraps_cause_witness:
  "distinct (map fst [(''path'', Str ''/etc/app.json'')])
   \<and> ''type'' \<notin> fst ` set [(''path'', Str ''/etc/app.json'')]
   \<and> ''cause'' \<notin> fst ` set [(''path'', Str ''/etc/app.json'')]
   \<and> Err_annotate (Obj [(''type'', Str ''IO''), (''errno'', Str ''ENOENT'')]) ''ConfigFileMissing''
        (Obj [(''path'', Str ''/etc/app.json'')])
      = Inst (Err (Obj [(''type'', Str ''ConfigFileMissing''), (''path'', Str ''/etc/app.json''),
                        (''cause'', Obj [(''type'', Str ''IO''), (''errno'', Str ''ENOENT'')])]))
   \<and> distinct (map fst [(''type'', Str ''Mine''), (''cause'', Null)])
   \<and> (\<exists>ps. Err_annotate (Str ''low'') ''High'' (Obj [(''type'', Str ''Mine''), (''cause'', Null)])
              = Inst (Err (Obj ps))
          \<and> map_of ps ''type'' = Some (Str ''Mine'')
          \<and> map_of ps ''cause'' = Some (Str ''low''))"
proof -
  let ?e = "Obj [(''type'', Str ''IO''), (''errno'', Str ''ENOENT'')]"
  let ?p = "[(''path'', Str ''/etc/app.json'')]"
  let ?q = "[(''type'', Str ''Mine''), (''cause'', Null)]"
  have p: "distinct (map fst ?p) \<and> ''type'' \<notin> fst ` set ?p \<and> ''cause'' \<notin> fst ` set ?p"
    by simp
  have q: "distinct (map fst ?q)" by simp
  from annotate_wraps_cause [of ?p ?e "''ConfigFileMissing''"] p
  have exact: "Err_annotate ?e ''ConfigFileMissing'' (Obj ?p)
      = Inst (Err (Obj ((''type'', Str ''ConfigFileMissing'') # ?p @ [(''cause'', ?e)])))"
    by blast
  from annotate_wraps_cause [of ?q "Str ''low''" "''High''"] q
  obtain ps where ps: "Err_annotate (Str ''low'') ''High'' (Obj ?q) = Inst (Err (Obj ps))"
      "map_of ps = ([''type'' \<mapsto> Str ''High''] ++ map_of ?q)(''cause'' \<mapsto> Str ''low'')"
    by blast
  from ps(2) have "map_of ps ''type'' = Some (Str ''Mine'')" "map_of ps ''cause'' = Some (Str ''low'')"
    by simp_all
  with ps(1) have "\<exists>ps. Err_annotate (Str ''low'') ''High'' (Obj ?q) = Inst (Err (Obj ps))
          \<and> map_of ps ''type'' = Some (Str ''Mine'')
          \<and> map_of ps ''cause'' = Some (Str ''low'')"
    by blast
  with exact p q show ?thesis by simp
qed

text \<open>
  Claim C10. In the free-function style, \<^verbatim>\<open>err(t, p)\<close> with a string \<open>t\<close> and a payload
  record \<open>p\<close> (a record is truthy) is the Failure whose error maps as the literal
  \<^verbatim>\<open>{ type: t, ...p }\<close> does; when \<open>p\<close> has no \<^verbatim>\<open>type\<close> of its own, the error is \<^verbatim>\<open>type\<close>
  followed by the properties of \<open>p\<close>. With a second argument that is falsy (left out, that
  is \<^verbatim>\<open>undefined\<close>, included) \<^verbatim>\<open>err(x)\<close> is the Failure whose error is \<open>x\<close> as it is:
  \<^verbatim>\<open>err("X")\<close> carries the bare string, whose \<^verbatim>\<open>type\<close> reads as \<^verbatim>\<open>undefined\<close>, where the
  curried \<^verbatim>\<open>err("X")()\<close> of the method-bearing style carries \<^verbatim>\<open>{ type: "X" }\<close>. The last
  conjunct is the example of the source's documentation.
\<close>

theorem err_fn_two_shapes:
  "(distinct (map fst p) \<longrightarrow>
      truthy (Obj p)
      \<and> (\<exists>ps. err_fn (Str t) (Obj p) = Obj [(''ok'', Bool False), (''error'', Obj ps)]
             \<and> distinct (map fst ps)
             \<and> map_of ps = [''type'' \<mapsto> Str t] ++ map_of p))
   \<and> (distinct (map fst p) \<and> ''type'' \<notin> fst ` set p \<longrightarrow>
        err_fn (Str t) (Obj p) = Obj [(''ok'', Bool False), (''error'', Obj ((''type'', Str t) # p))])
   \<and> (\<not> truthy q \<longrightarrow> err_fn x q = Obj [(''ok'', Bool False), (''error'', x)])
   \<and> err_fn (Str ''X'') Undefined = Obj [(''ok'', Bool False), (''error'', Str ''X'')]
   \<and> get_prop ''type'' (get_prop ''error'' (err_fn (Str ''X'') Undefined)) = Undefined
   \<and> err ''X'' Undefined = Inst (Err (Obj [(''type'', Str ''X'')]))
   \<and> get_prop ''type'' (get_prop ''error'' (err ''X'' Undefined)) = Str ''X''
   \<and> err_fn (Str ''Timeout'') (Obj [(''ms'', Num 1000)])
       = Obj [(''ok'', Bool False),
              (''error'', Obj [(''type'', Str ''Timeout''), (''ms'', Num 1000)])]"
proof (intro conjI impI)
  assume d: "distinct (map fst p)"
  let ?ps = "spread (Obj p) [(''type'', Str t)]"
  have "distinct (map fst ?ps)" by (simp add: spread_distinct)
  moreover have "map_of ?ps = [''type'' \<mapsto> Str t] ++ map_of p"
    using d by (simp add: spread_record_map_of)
  moreover have "err_fn (Str t) (Obj p) = Obj [(''ok'', Bool False), (''error'', Obj ?ps)]"
    by (simp add: err_fn_def)
  ultimately show "\<exists>ps. err_fn (Str t) (Obj p) = Obj [(''ok'', Bool False), (''error'', Obj ps)]
           \<and> distinct (map fst ps)
           \<and> map_of ps = [''type'' \<mapsto> Str t] ++ map_of p"
    by blast
next
  assume "distinct (map fst p) \<and> ''type'' \<notin> fst ` set p"
  then have "spread (Obj p) [(''type'', Str t)] = (''type'', Str t) # p"
    using spread_record_fresh [of p "[(''type'', Str t)]"] by simp
  then show "err_fn (Str t) (Obj p)
     = Obj [(''ok'', Bool False), (''error'', Obj ((''type'', Str t) # p))]"
    by (simp add: err_fn_def)
qed (simp_all add: err_fn_def err_def default_payload_def spread_def)

text \<open>An instance: \<^verbatim>\<open>err("Timeout", {ms: 500})\<close> of the tests, and \<^verbatim>\<open>err("E", 0)\<close>.\<close>

theorem err_fn_two_shapes_witness:
  "distinct (map fst [(''ms'', Num 500)])
   \<and> ''type'' \<notin> fst ` set [(''ms'', Num 500)]
   \<and> truthy (Obj [(''ms'', Num 500)])
   \<and> err_fn (Str ''Timeout'') (Obj [(''ms'', Num 500)])
       = Obj [(''ok'', Bool False), (''error'', Obj [(''type'', Str ''Timeout''), (''ms'', Num 500)])]
   \<and> \<not> truthy (Num 0)
   \<and> err_fn (Str ''E'') (Num 0) = Obj [(''ok'', Bool False), (''error'', Str ''E'')]"
  using err_fn_two_shapes [of "[(''ms'', Num 500)]" "''Timeout''" "Num 0" "Str ''E''"]
  by simp

section \<open>The matcher\<close>

text \<open>
  Claim C8, as amended. For a string discriminant \<open>d\<close> and a record of cases \<open>m\<close>: if \<open>m\<close>
  has an own entry keyed \<open>d\<close> (a function), \<^verbatim>\<open>match\<close> calls that entry once, with no
  argument, and its outcome is the outcome of the call; if \<open>m\<close> has no entry keyed \<open>d\<close>
  and \<open>d\<close> is not the name of a member that every record inherits, \<^verbatim>\<open>match\<close> raises the
  host's \<^verbatim>\<open>TypeError\<close> for calling what is not a function, and calls nothing. (For an
  inherited name the inherited member is what \<^verbatim>\<open>b[a]\<close> finds; see the instance after the
  next.)
\<close>

theorem match_own_entry_or_raise:
  "(map_of m d = Some (Fn f) \<longrightarrow>
      match_fn h (Str d) m tr = Some (h f [] tr, tr @ [(f, [])]))
   \<and> (map_of m d = None \<and> d \<notin> set Object_prototype \<longrightarrow>
      match_fn h (Str d) m tr = Some (Inl not_a_function, tr))"
  by (simp add: match_fn_def call_member_def call_def)

text \<open>An instance: a case that is present, and one that is absent.\<close>

theorem match_own_entry_or_raise_witness:
  "map_of [(''Timeout'', Fn 0)] ''Timeout'' = Some (Fn 0)
   \<and> match_fn example_host (Str ''Timeout'') [(''Timeout'', Fn 0)] []
       = Some (Inr (Num 1), [(0, [])])
   \<and> map_of [(''Timeout'', Fn 0)] ''NotFound'' = None
   \<and> ''NotFound'' \<notin> set Object_prototype
   \<and> match_fn example_host (Str ''NotFound'') [(''Timeout'', Fn 0)] []
       = Some (Inl not_a_function, [])"
  using match_own_entry_or_raise [of "[(''Timeout'', Fn 0)]" "''Timeout''" 0 example_host "[]"]
    match_own_entry_or_raise [of "[(''Timeout'', Fn 0)]" "''NotFound''" _ example_host "[]"]
  by (simp add: example_host_def Object_prototype_def)

text \<open>
  The claim as stated, for every string, fails: the empty record of cases has no entry
  keyed \<^verbatim>\<open>toString\<close>, yet \<^verbatim>\<open>match("toString", {})\<close> raises nothing and returns a string.
\<close>

theorem match_inherited_member_returns:
  "map_of ([] :: props) ''toString'' = None
   \<and> match_fn idle_host (Str ''toString'') [] [] = Some (Inr (Str ''[object Object]''), [])"
  by (simp add: match_fn_def call_member_def Object_prototype_def Object_prototype_call_def)

section \<open>The repository's tests, replayed\<close>

text \<open>
  The assertions of the two test files that concern the operations above hold of the
  embedding. First the method-bearing style: constructors, \<^verbatim>\<open>map\<close> on a Failure, the
  iterable, the rehydration of \<^verbatim>\<open>JSON.parse(JSON.stringify(ok(9)))\<close>, and the annotation.
\<close>

lemma test_methods:
  "get_prop ''ok'' (ok (Num 1)) = Bool True
   \<and> get_prop ''ok'' (err ''X'' Undefined) = Bool False
   \<and> get_prop ''value'' (ok Undefined) = Undefined
   \<and> method_map example_host (Err (Obj [(''type'', Str ''E'')])) (Fn 2) []
       = (Inr (err ''E'' Undefined), [])
   \<and> method_unwrap (Ok (Num 42)) = Inr (Num 42)
   \<and> method_or (Ok (Num 42)) (Num 7) = Num 42
   \<and> method_or (Err (Obj [(''type'', Str ''E'')])) (Num 7) = Num 7
   \<and> iterate (ok (Num 3)) = Inr [Num 3]
   \<and> iterate (err ''E'' Undefined) = Inr []
   \<and> rehydrate_round_trip idle_host 0 (ok (Num 9)) [] = Some (Inr (ok (Num 9)), [])
   \<and> get_prop ''id'' (get_prop ''cause'' (get_prop ''error''
        (Err_annotate (Obj [(''type'', Str ''A''), (''id'', Num 2)]) ''B''
           (Obj [(''extra'', Num 1)])))) = Num 2"
  by (simp add: ok_def err_def default_payload_def spread_def Err_map_def Ok_unwrap_def
      Ok_or_def Err_or_def Ok_iterator_def Err_iterator_def rehydrate_round_trip_def
      JSON_stringify_def toJSON_member_def result_def in_ok_plain Err_annotate_def)

text \<open>Then the free-function style: \<^verbatim>\<open>map\<close>, \<^verbatim>\<open>unwrap\<close>, \<^verbatim>\<open>orElse\<close>, and the two ways of
  \<^verbatim>\<open>match\<close>. (The assertions of that file on \<^verbatim>\<open>mapErr\<close> of a Failure and on \<^verbatim>\<open>result\<close> of a
  function that raises are the ones the unbound \<^verbatim>\<open>errAny\<close> breaks; see the lemma after
  this one.)\<close>

lemma test_functions:
  "map_fn example_host (ok_fn (Num 2)) (Fn 2) [] = (Inr (ok_fn (Num 4)), [(2, [Num 2])])
   \<and> map_fn example_host (err_fn (Str ''E'') Undefined) (Fn 2) []
       = (Inr (err_fn (Str ''E'') Undefined), [])
   \<and> get_prop ''error'' (err_fn (Str ''E'') Undefined) = Str ''E''
   \<and> unwrap_fn (ok_fn (Num 42)) = Inr (Num 42)
   \<and> orElse_fn (ok_fn (Num 42)) (Num 7) = Inr (Num 42)
   \<and> orElse_fn (err_fn (Str ''E'') Undefined) (Num 7) = Inr (Num 7)
   \<and> match_fn example_host (ok_fn (Num 5)) [(''ok'', Fn 2), (''err'', Fn 6)] []
       = Some (Inr (Num 10), [(2, [Num 5])])
   \<and> match_fn example_host (err_fn (Str ''Timeout'') (Obj [(''ms'', Num 1000)]))
        [(''ok'', Fn 2), (''err'', Fn 3)] []
       = Some (Inr (Str ''Timeout''),
               [(3, [Obj [(''type'', Str ''Timeout''), (''ms'', Num 1000)]])])
   \<and> match_fn example_host (get_prop ''error'' (err_fn (Str ''b'') Undefined))
        [(''a'', Fn 4), (''b'', Fn 5)] []
       = Some (Inr (Str ''b''), [(5, [])])"
  by (simp add: map_fn_def ok_fn_def err_fn_def read_def call_def example_host_def
      unwrap_fn_def orElse_fn_def match_fn_def in_ok_plain call_member_def spread_def)

text \<open>The test of \<^verbatim>\<open>mapErr\<close> on \<^verbatim>\<open>err("E", {id: 1})\<close> expects a Failure with the new error; the
  file as written raises, and the function is not called.\<close>

lemma test_mapErr_unbound:
  "mapErr_fn example_host (err_fn (Str ''E'') (Obj [(''id'', Num 1)])) (Fn 3) []
     = (Inl errAny_unbound, [])
   \<and> mapErr_fn example_host (ok_fn (Num 1)) (Fn 3) [] = (Inr (ok_fn (Num 1)), [])"
  by (simp add: mapErr_fn_def err_fn_def ok_fn_def read_def)

end
